theory Spec2Isabelle
  imports Main
begin

section \<open>Errors\<close>

text \<open>
  The exceptions the modelled code raises, as values. \<open>ValueError\<close> carries its message;
  \<open>NoResultFound\<close>, \<open>MultipleResultsFound\<close>, \<open>InvalidRequestError\<close> and
  \<open>ProgrammingError\<close> are SQLAlchemy's exceptions of those names; \<open>KeyError\<close> is a missing dictionary key;
  \<open>Abort\<close> is the command-line client's exception for a request the API did not accept.
\<close>

datatype error =
    ValueError string
  | NoResultFound string
  | MultipleResultsFound
  | InvalidRequestError
  | ProgrammingError
  | KeyError string
  | Abort string

section \<open>Pagination (jobbergate\_api.pagination)\<close>

text \<open>
  Modelled from the spec: the values of \<open>Pagination\<close>, whose module
  (jobbergate\_api/pagination.py) is not part of the excerpt. A pagination is either the
  default one (pagination was not requested) or a page number together with a page size.
\<close>

datatype pagination = Unpaginated | Paginated int int

text \<open>
  Modelled from the spec: the constructor of \<open>Pagination\<close>, whose module
  (jobbergate\_api/pagination.py) is not part of the excerpt; only its test is. It
  "validates page \<open>\<ge>\<close> 0 and page size > 0, rejecting otherwise"; the messages are the
  ones the test matches. The argument is \<open>None\<close> for \<open>Pagination()\<close> and
  \<open>Some (page, per_page)\<close> for \<open>Pagination(page=page, per_page=per_page)\<close>.
\<close>

definition Pagination_init :: "(int \<times> int) option \<Rightarrow> error + pagination" where
  "Pagination_init args =
     (case args of
        None \<Rightarrow> Inr Unpaginated
      | Some (page, per_page) \<Rightarrow>
          if page < 0 then
            Inl (ValueError ''The page parameter must be greater than or equal to zero'')
          else if per_page \<le> 0 then
            Inl (ValueError ''The per_page parameter must be greater than zero'')
          else Inr (Paginated page per_page))"

text \<open>
  Modelled from the spec: the envelope that \<open>package_response\<close> returns, "the JSON
  wrapper combining a result list/slice with its metadata"; the fields are the ones the
  test reads.
\<close>

record response_metadata =
  total :: int
  page :: "int option"
  per_page :: "int option"

record 'a response =
  results :: "'a list"
  metadata :: response_metadata

text \<open>
  Modelled from the spec: \<open>package_response\<close> of the same missing module. It "computes
  a bounded slice of an ordered query result and reports total row count alongside the
  slice; omits page/page-size metadata entirely when pagination was not requested". The
  query is given by the ordered list of rows it selects; \<open>model\<close> turns a raw row into
  an object of the response model (\<open>Application\<close> in the test). The slice is SQL's
  LIMIT \<open>per_page\<close> OFFSET \<open>page * per_page\<close>.
\<close>

definition package_response :: "('r \<Rightarrow> 'a) \<Rightarrow> 'r list \<Rightarrow> pagination \<Rightarrow> 'a response" where
  "package_response model query pg =
     (let count = int (length query) in
      case pg of
        Unpaginated \<Rightarrow>
          \<lparr>results = map model query,
           metadata = \<lparr>total = count, page = None, per_page = None\<rparr>\<rparr>
      | Paginated p n \<Rightarrow>
          \<lparr>results = map model (take (nat n) (drop (nat (p * n)) query)),
           metadata = \<lparr>total = count, page = Some p, per_page = Some n\<rparr>\<rparr>)"

section \<open>The smart\_templates service (apps/smart\_templates/service.py)\<close>

subsection \<open>Rows, objects and requests\<close>

text \<open>
  A row of the table is its primary key and the values of its other columns by column
  name; \<open>'v\<close> is the type of column values. A \<open>SmartTemplate\<close> is a persistent object:
  a row loaded into the session.
\<close>

type_synonym 'v columns = "string \<rightharpoonup> 'v"

record 'v SmartTemplate =
  id' :: int
  cols :: "'v columns"

text \<open>
  A request object (\<open>SmartTemplateCreateRequest\<close>, \<open>SmartTemplateUpdateRequest\<close>) is a
  pydantic model: the fields of the schema with their values, in order, and the set of
  the fields the caller supplied. \<open>incoming_data.dict(exclude_unset=True)\<close> is the
  dictionary of the supplied ones, as the list of its items. The primary key is generated
  by the database and is not a field of a request.
\<close>

record 'v request =
  field_values :: "(string \<times> 'v) list"
  fields_set :: "string set"

definition dict_exclude_unset :: "'v request \<Rightarrow> (string \<times> 'v) list" where
  "dict_exclude_unset incoming_data =
     filter (\<lambda>(name, v). name \<in> fields_set incoming_data) (field_values incoming_data)"

subsection \<open>The database session\<close>

text \<open>
  The session, as far as the service uses it: the table as the transaction sees it, the
  sequence that generates primary keys, the unit of work (objects added and not yet
  inserted, primary keys of objects marked for deletion), and the calls made on the
  session so far, in order. The declaration of the table (models.py) is not part of the
  excerpt, so what it may declare is a parameter: \<open>col_defaults\<close> are the columns with
  a default and their default values, \<open>col_onupdate\<close> the columns with an \<open>onupdate\<close>
  value, which every UPDATE sets unless the statement gives the column a value itself.
  A query does not flush pending work by itself here (SQLAlchemy's autoflush is a setting
  of the session); the properties below are about sessions with nothing pending, where
  the setting makes no difference.
\<close>

datatype call = Add | Flush | Refresh int | Delete int | Select int | Update int

record 'v session =
  table :: "int \<rightharpoonup> 'v columns"
  next_id :: int
  col_defaults :: "'v columns"
  col_onupdate :: "(string \<times> 'v) list"
  new :: "'v columns list"
  deleted :: "int list"
  calls :: "call list"

text \<open>\<open>session.add(obj)\<close>: the object is pending until the next flush.\<close>

definition session_add :: "'v columns \<Rightarrow> 'v session \<Rightarrow> 'v session" where
  "session_add obj s = s\<lparr>new := new s @ [obj], calls := calls s @ [Add]\<rparr>"

text \<open>\<open>session.delete(obj)\<close>: the object is marked; the DELETE is emitted by the next flush.\<close>

definition session_delete :: "'v SmartTemplate \<Rightarrow> 'v session \<Rightarrow> 'v session" where
  "session_delete obj s = s\<lparr>deleted := deleted s @ [id' obj], calls := calls s @ [Delete (id' obj)]\<rparr>"

text \<open>
  INSERT of the pending objects, in the order they were added: each takes the next value
  of the sequence as its primary key, and the column defaults where it has no value.
\<close>

fun insert_rows :: "'v columns \<Rightarrow> 'v columns list \<Rightarrow> int \<Rightarrow> (int \<rightharpoonup> 'v columns) \<Rightarrow> (int \<rightharpoonup> 'v columns)" where
  "insert_rows dflt [] k t = t"
| "insert_rows dflt (obj # objs) k t = insert_rows dflt objs (k + 1) (t(k \<mapsto> dflt ++ obj))"

fun delete_rows :: "int list \<Rightarrow> (int \<rightharpoonup> 'v columns) \<Rightarrow> (int \<rightharpoonup> 'v columns)" where
  "delete_rows [] t = t"
| "delete_rows (k # ks) t = delete_rows ks (t(k := None))"

text \<open>\<open>session.flush()\<close>: the unit of work is written out, inserts before deletes.\<close>

definition session_flush :: "'v session \<Rightarrow> 'v session" where
  "session_flush s =
     s\<lparr>table := delete_rows (deleted s) (insert_rows (col_defaults s) (new s) (next_id s) (table s)),
       next_id := next_id s + int (length (new s)),
       new := [],
       deleted := [],
       calls := calls s @ [Flush]\<rparr>"

text \<open>
  \<open>session.refresh(obj)\<close> for the object with primary key \<open>k\<close>: its attributes are
  loaded again from its row; SQLAlchemy raises InvalidRequestError when the row is gone.
\<close>

definition session_refresh :: "int \<Rightarrow> 'v session \<Rightarrow> (error + 'v SmartTemplate) \<times> 'v session" where
  "session_refresh k s =
     (case table s k of
        None \<Rightarrow> Inl InvalidRequestError
      | Some c \<Rightarrow> Inr \<lparr>id' = k, cols = c\<rparr>,
      s\<lparr>calls := calls s @ [Refresh k]\<rparr>)"

text \<open>
  \<open>session.execute(select(SmartTemplate).where(SmartTemplate.id == id))\<close>: the rows with
  that primary key, none or one.
\<close>

definition execute_select :: "int \<Rightarrow> 'v session \<Rightarrow> 'v SmartTemplate list \<times> 'v session" where
  "execute_select k s =
     (case table s k of None \<Rightarrow> [] | Some c \<Rightarrow> [\<lparr>id' = k, cols = c\<rparr>],
      s\<lparr>calls := calls s @ [Select k]\<rparr>)"

text \<open>
  The SET list of the UPDATE statement built with \<open>.values(**payload)\<close>: the items of the
  payload, then the \<open>onupdate\<close> value of every column that has one and that the payload
  leaves out.
\<close>

definition set_clause :: "'v session \<Rightarrow> (string \<times> 'v) list \<Rightarrow> (string \<times> 'v) list" where
  "set_clause s payload =
     payload @ filter (\<lambda>(name, v). map_of payload name = None) (col_onupdate s)"

text \<open>
  \<open>session.execute(update(SmartTemplate).returning(SmartTemplate).where(SmartTemplate.id
  == id).values(**payload))\<close>. With nothing to set, the statement is UPDATE ... SET
  WHERE ..., which the database rejects: the call raises ProgrammingError whether the
  row exists or not. Otherwise the columns of the SET list are set in the row with that
  primary key, and the rows updated are returned as they are after the statement.
\<close>

definition execute_update ::
  "int \<Rightarrow> (string \<times> 'v) list \<Rightarrow> 'v session \<Rightarrow> (error + 'v SmartTemplate list) \<times> 'v session" where
  "execute_update k payload s =
     (let assignments = set_clause s payload;
          s1 = s\<lparr>calls := calls s @ [Update k]\<rparr>
      in if assignments = [] then (Inl ProgrammingError, s1)
         else (case table s k of
                 None \<Rightarrow> (Inr [], s1)
               | Some c \<Rightarrow>
                   (Inr [\<lparr>id' = k, cols = c ++ map_of assignments\<rparr>],
                    s1\<lparr>table := (table s)(k \<mapsto> c ++ map_of assignments)\<rparr>)))"

text \<open>\<open>Result.scalar_one_or_none()\<close> and \<open>Result.scalar_one()\<close>.\<close>

fun scalar_one_or_none :: "'a list \<Rightarrow> error + 'a option" where
  "scalar_one_or_none [] = Inr None"
| "scalar_one_or_none [x] = Inr (Some x)"
| "scalar_one_or_none (x # y # zs) = Inl MultipleResultsFound"

fun scalar_one :: "'a list \<Rightarrow> error + 'a" where
  "scalar_one [] = Inl (NoResultFound ''No row was found when one was required'')"
| "scalar_one [x] = Inr x"
| "scalar_one (x # y # zs) = Inl MultipleResultsFound"

subsection \<open>SmartTemplateService\<close>

text \<open>
  Every method takes the session and returns what it returns or raises together with the
  session after it. In \<open>create\<close>, the object added last is the one that receives the last
  primary key the flush draws from the sequence. In \<open>update\<close>, an exception of
  \<open>session.execute\<close> leaves the method before its flush.
\<close>

definition create :: "'v request \<Rightarrow> 'v session \<Rightarrow> (error + 'v SmartTemplate) \<times> 'v session" where
  "create incoming_data s =
     (let smart_template = map_of (dict_exclude_unset incoming_data);
          s1 = session_add smart_template s;
          s2 = session_flush s1
      in session_refresh (next_id s2 - 1) s2)"

definition get :: "int \<Rightarrow> 'v session \<Rightarrow> (error + 'v SmartTemplate option) \<times> 'v session" where
  "get k s =
     (let (result, s1) = execute_select k s
      in (scalar_one_or_none result, s1))"

definition delete :: "int \<Rightarrow> 'v session \<Rightarrow> (error + unit) \<times> 'v session" where
  "delete k s =
     (case get k s of
        (Inl e, s1) \<Rightarrow> (Inl e, s1)
      | (Inr None, s1) \<Rightarrow> (Inl (NoResultFound ''SmartTemplate not found''), s1)
      | (Inr (Some job_template), s1) \<Rightarrow>
          (let s2 = session_delete job_template s1;
               s3 = session_flush s2
           in (Inr (), s3)))"

definition update :: "int \<Rightarrow> 'v request \<Rightarrow> 'v session \<Rightarrow> (error + 'v SmartTemplate) \<times> 'v session" where
  "update k incoming_data s =
     (case execute_update k (dict_exclude_unset incoming_data) s of
        (Inl e, s1) \<Rightarrow> (Inl e, s1)
      | (Inr result, s1) \<Rightarrow>
          (let s2 = session_flush s1
           in (scalar_one result, s2)))"

text \<open>
  A session with nothing pending: every method of the service leaves the session so.
\<close>

definition flushed :: "'v session \<Rightarrow> bool" where
  "flushed s \<longleftrightarrow> new s = [] \<and> deleted s = []"

text \<open>
  The sequence is ahead of every primary key in the table: the keys it generates are not
  in use.
\<close>

definition fresh_seq :: "'v session \<Rightarrow> bool" where
  "fresh_seq s \<longleftrightarrow> (\<forall>k \<in> dom (table s). k < next_id s)"

text \<open>
  A fresh session on an empty table with the given column defaults and \<open>onupdate\<close>
  values, and whether a result is a raised NoResultFound.
\<close>

definition init_session :: "'v columns \<Rightarrow> (string \<times> 'v) list \<Rightarrow> 'v session" where
  "init_session dflt onupd =
     \<lparr>table = Map.empty, next_id = 1, col_defaults = dflt, col_onupdate = onupd,
      new = [], deleted = [], calls = []\<rparr>"

fun raises_not_found :: "error + 'a \<Rightarrow> bool" where
  "raises_not_found (Inl (NoResultFound msg)) = True"
| "raises_not_found r = False"

text \<open>
  An example: the session after one smart template was created on an empty table whose
  declaration has no defaults and no \<open>onupdate\<close> values, and an update request that
  supplies only its description.
\<close>

definition example_session :: "string session" where
  "example_session =
     snd (create \<lparr>field_values = [(''name'', ''alpha''), (''description'', '''')],
                  fields_set = {''name''}\<rparr>
            (init_session Map.empty []))"

definition example_update :: "string request" where
  "example_update =
     \<lparr>field_values = [(''name'', ''''), (''description'', ''first'')],
      fields_set = {''description''}\<rparr>"

text \<open>
  On the example session, whose table has no \<open>onupdate\<close> value, an update request that
  supplies no field raises ProgrammingError, for an id that exists as for one that does
  not.
\<close>

definition example_empty_update :: "string request" where
  "example_empty_update =
     \<lparr>field_values = [(''name'', ''''), (''description'', '''')], fields_set = {}\<rparr>"

section \<open>File validation (jobbergate\_api.file\_validation)\<close>

text \<open>
  Modelled from the spec: the three validation functions of
  jobbergate\_api/file\_validation.py, which is not part of the excerpt; only its test is.
  Each is "a single-purpose syntax check (source-code parseability, structured-document
  parseability, template-syntax parseability), each delegating to an existing parser and
  reporting boolean validity". The parsers are those of the Python standard library, of
  PyYAML and of Jinja2; each is a parameter here, a function that returns the parsed
  document or raises.
\<close>

definition is_valid_python_file :: "(string \<Rightarrow> error + 'ast) \<Rightarrow> string \<Rightarrow> bool" where
  "is_valid_python_file ast_parse source_code =
     (case ast_parse source_code of Inl e \<Rightarrow> False | Inr tree \<Rightarrow> True)"

definition is_valid_yaml_file :: "(string \<Rightarrow> error + 'doc) \<Rightarrow> string \<Rightarrow> bool" where
  "is_valid_yaml_file yaml_safe_load yaml_file =
     (case yaml_safe_load yaml_file of Inl e \<Rightarrow> False | Inr doc \<Rightarrow> True)"

definition is_valid_jinja2_template :: "(string \<Rightarrow> error + 'tmpl) \<Rightarrow> string \<Rightarrow> bool" where
  "is_valid_jinja2_template environment_parse template =
     (case environment_parse template of Inl e \<Rightarrow> False | Inr t \<Rightarrow> True)"

section \<open>The applications commands of the client (subapps/applications/app.py)\<close>

subsection \<open>list\<close>

datatype SortOrder = ASCENDING | DESCENDING | UNSORTED

text \<open>
  The objects that the identity tests of \<open>list_all\<close> compare: the enumeration class
  \<open>SortOrder\<close> itself and its members. A member of an enumeration is a singleton, and
  the class is none of its members, so \<open>is\<close> is equality on these values.
\<close>

datatype py_object = SortOrder_class | SortOrder_member SortOrder

definition py_is :: "py_object \<Rightarrow> py_object \<Rightarrow> bool" where
  "py_is a b \<longleftrightarrow> a = b"

datatype param = Bool bool | Str string

text \<open>
  \<open>list_all\<close> up to its call of \<open>make_request\<close>: the query parameters of the GET request
  on /jobbergate/applications that it sends. The source's line for the sort order is
  \<^verbatim>\<open>params["sort_ascending"] = SortOrder is SortOrder.ASCENDING\<close>.
\<close>

definition list_all ::
  "bool \<Rightarrow> bool \<Rightarrow> string option \<Rightarrow> SortOrder \<Rightarrow> string option \<Rightarrow> (string \<rightharpoonup> param)" where
  "list_all show_all user_only search sort_order sort_field =
     (let params = [''all'' \<mapsto> Bool show_all, ''user'' \<mapsto> Bool user_only];
          params = (case search of
                      Some term \<Rightarrow> params(''search'' \<mapsto> Str term)
                    | None \<Rightarrow> params);
          params = (if \<not> py_is (SortOrder_member sort_order) (SortOrder_member UNSORTED)
                    then params(''sort_ascending'' \<mapsto>
                                  Bool (py_is SortOrder_class (SortOrder_member ASCENDING)))
                    else params);
          params = (case sort_field of
                      Some field \<Rightarrow> params(''sort_field'' \<mapsto> Str field)
                    | None \<Rightarrow> params)
      in params)"

subsection \<open>create\<close>

text \<open>
  JSON values, and what the command prints: a message in a coloured box
  (\<open>terminal_message\<close> with its subject and colour) or a rendered record
  (\<open>render_single_result\<close> with the record, the hidden fields and the title).
\<close>

datatype json = JInt int | JStr string | JBool bool | JNull

datatype printed =
    Terminal_message string string
  | Render_single_result "string \<rightharpoonup> json" "string list" string

definition HIDDEN_FIELDS :: "string list" where
  "HIDDEN_FIELDS =
     [''application_config'', ''application_source_file'', ''application_templates'',
      ''created_at'', ''updated_at'']"

text \<open>
  An HTTP request as the client sends it and the response it receives. The API is a
  function from a request and the state of the server to a response and the next state
  of the server; \<open>'srv\<close> is whatever the server keeps.
\<close>

datatype http_method = GET | POST | PUT | DELETE

record http_request =
  url_path :: string
  http_method :: http_method
  json_body :: "string \<rightharpoonup> json"

record http_response =
  status_code :: int
  response_json :: "string \<rightharpoonup> json"

type_synonym 'srv client = "http_request \<Rightarrow> 'srv \<Rightarrow> http_response \<times> 'srv"

text \<open>
  Modelled from the spec: \<open>make_request\<close> of jobbergate\_cli/requests.py, which is not part
  of the excerpt, for a call that names an expected status and expects a JSON response:
  "any failed HTTP call aborts the command with a formatted message".
\<close>

definition make_request ::
  "'srv client \<Rightarrow> string \<Rightarrow> http_method \<Rightarrow> int \<Rightarrow> string \<Rightarrow> (string \<rightharpoonup> json) \<Rightarrow> 'srv \<Rightarrow>
     (error + (string \<rightharpoonup> json)) \<times> 'srv" where
  "make_request client path method expected_status abort_message body srv =
     (let (response, srv1) = client \<lparr>url_path = path, http_method = method, json_body = body\<rparr> srv
      in if status_code response = expected_status
         then (Inr (response_json response), srv1)
         else (Inl (Abort abort_message), srv1))"

text \<open>
  The body of the \<open>create\<close> command; \<open>create_req_data\<close> is the request data its
  first lines build. \<open>load_default_config\<close> and \<open>upload_application\<close>
  come from subapps/applications/tools.py, which is not part of the excerpt: the first is
  the dictionary it returns, the second a function of the application path, the
  application id and the server that returns whether the upload succeeded. A string option
  is truthy when it is given and not empty. The result is what the body returns or raises,
  the state of the server after it, and what it printed, in order.
\<close>

definition truthy :: "string option \<Rightarrow> bool" where
  "truthy x \<longleftrightarrow> (case x of None \<Rightarrow> False | Some v \<Rightarrow> v \<noteq> [])"

definition create_req_data ::
  "(string \<rightharpoonup> json) \<Rightarrow> string \<Rightarrow> string option \<Rightarrow> string option \<Rightarrow> (string \<rightharpoonup> json)" where
  "create_req_data load_default_config name identifier application_desc =
     (let req_data = load_default_config;
          req_data = req_data(''application_name'' \<mapsto> JStr name);
          req_data = (if truthy identifier
                      then req_data(''application_identifier'' \<mapsto> JStr (the identifier))
                      else req_data);
          req_data = (if truthy application_desc
                      then req_data(''application_description'' \<mapsto> JStr (the application_desc))
                      else req_data)
      in req_data)"

definition create_application ::
  "'srv client \<Rightarrow> (string \<rightharpoonup> json) \<Rightarrow> (string \<Rightarrow> json \<Rightarrow> 'srv \<Rightarrow> bool \<times> 'srv) \<Rightarrow>
     string \<Rightarrow> string option \<Rightarrow> string \<Rightarrow> string option \<Rightarrow> 'srv \<Rightarrow>
     (error + unit) \<times> 'srv \<times> printed list" where
  "create_application client load_default_config upload_application
       name identifier application_path application_desc srv =
     (let req_data = create_req_data load_default_config name identifier application_desc
      in case make_request client ''/jobbergate/applications'' POST 201
                ''Request to create application was not accepted by the API'' req_data srv of
           (Inl e, srv1) \<Rightarrow> (Inl e, srv1, [])
         | (Inr result, srv1) \<Rightarrow>
             (case result ''id'' of
                None \<Rightarrow> (Inl (KeyError ''id''), srv1, [])
              | Some application_id \<Rightarrow>
                  (let (successful_upload, srv2) =
                         upload_application application_path application_id srv1
                   in if \<not> successful_upload
                      then (Inr (), srv2,
                            [Terminal_message ''File upload failed'' ''yellow'',
                             Render_single_result result HIDDEN_FIELDS ''Created Application''])
                      else (Inr (), srv2,
                            [Render_single_result (result(''application_uploaded'' \<mapsto> JBool True))
                               HIDDEN_FIELDS ''Created Application'']))))"

section \<open>Properties of pagination\<close>

lemma length_slice:
  assumes "0 \<le> p" and "0 < n"
  shows "int (length (take (nat n) (drop (nat (p * n)) (xs :: 'r list)))) =
         max 0 (min (int (length xs) - p * n) n)"
proof -
  have "0 \<le> p * n" using assms by simp
  then obtain k where k: "p * n = int k" using nonneg_int_cases by blast
  obtain j where j: "n = int j" using assms(2) nonneg_int_cases [of n] by auto
  have nk: "nat (p * n) = k" using k by simp
  have nj: "nat n = j" using j by simp
  have "int (min (length xs - k) j) = max 0 (min (int (length xs) - int k) (int j))"
    by arith
  then have "int (min (length xs - k) j) = max 0 (min (int (length xs) - p * n) n)"
    by (simp only: k [symmetric] j [symmetric])
  then show ?thesis by (simp only: length_take length_drop nk nj)
qed

text \<open>
  Claim C3. Constructing a Pagination fails with a ValueError for every negative page and
  for every page size that is not positive, and succeeds for every page \<open>\<ge>\<close> 0 with a
  page size > 0. The constructor takes no database: no query is involved.
\<close>

theorem Pagination_init_validates:
  "(p < 0 \<longrightarrow> (\<exists>msg. Pagination_init (Some (p, n)) = Inl (ValueError msg))) \<and>
   (n \<le> 0 \<longrightarrow> (\<exists>msg. Pagination_init (Some (p, n)) = Inl (ValueError msg))) \<and>
   (0 \<le> p \<and> 0 < n \<longrightarrow>
      Pagination_init (Some (p, n)) = Inr (Paginated p n))"
  by (simp add: Pagination_init_def)

theorem Pagination_init_validates_witness:
  "(\<exists>msg. Pagination_init (Some (- 1, 1)) = Inl (ValueError msg)) \<and>
   (\<exists>msg. Pagination_init (Some (1, 0)) = Inl (ValueError msg)) \<and>
   Pagination_init (Some (13, 21)) = Inr (Paginated 13 21)"
  using Pagination_init_validates [of "- 1" 1]
        Pagination_init_validates [of 1 0]
        Pagination_init_validates [of 13 21]
  by simp

text \<open>
  Claim C1. For every valid pagination (page \<open>\<ge>\<close> 0, page size > 0) over a query of
  \<open>length query\<close> rows, the constructor succeeds and the packaged response holds
  max(0, min(total - page * per\_page, per\_page)) results, so never more than per\_page;
  the results are the rows of the query, in order, from offset page * per\_page on; and
  the metadata's total is the number of rows of the unpaginated query.
\<close>

theorem package_response_with_pagination:
  assumes "0 \<le> p" and "0 < n"
  shows "\<exists>pg. Pagination_init (Some (p, n)) = Inr pg \<and>
           int (length (results (package_response model query pg))) =
             max 0 (min (int (length query) - p * n) n) \<and>
           int (length (results (package_response model query pg))) \<le> n \<and>
           (\<forall>i < length (results (package_response model query pg)).
              results (package_response model query pg) ! i = model (query ! (nat (p * n) + i))) \<and>
           total (metadata (package_response model query pg)) = int (length query)"
proof -
  let ?pg = "Paginated p n"
  let ?slice = "take (nat n) (drop (nat (p * n)) query)"
  have init: "Pagination_init (Some (p, n)) = Inr ?pg"
    using assms by (simp add: Pagination_init_def)
  have res: "results (package_response model query ?pg) = map model ?slice"
    by (simp add: package_response_def)
  have len: "int (length (results (package_response model query ?pg))) =
             max 0 (min (int (length query) - p * n) n)"
    using length_slice [OF assms] by (simp only: res length_map)
  have bound: "int (length (results (package_response model query ?pg))) \<le> n"
    using len assms by simp
  have nth: "\<forall>i < length (results (package_response model query ?pg)).
               results (package_response model query ?pg) ! i = model (query ! (nat (p * n) + i))"
    by (auto simp: res)
  have tot: "total (metadata (package_response model query ?pg)) = int (length query)"
    by (simp add: package_response_def)
  from init len bound nth tot show ?thesis by blast
qed

theorem package_response_with_pagination_witness:
  "\<exists>pg. Pagination_init (Some (2, 3)) = Inr pg \<and>
      results (package_response (\<lambda>x. x) [1, 2, 3, 4, 5, 6, 7, 8, 9, 10 :: int] pg) = [7, 8, 9] \<and>
      total (metadata (package_response (\<lambda>x. x) [1, 2, 3, 4, 5, 6, 7, 8, 9, 10 :: int] pg)) = 10"
proof -
  have h1: "(0::int) \<le> 2" and h2: "(0::int) < 3" by simp_all
  from package_response_with_pagination [OF h1 h2, of "\<lambda>x. x" "[1, 2, 3, 4, 5, 6, 7, 8, 9, 10 :: int]"]
  obtain pg where pg: "Pagination_init (Some (2, 3)) = Inr pg"
    and tot: "total (metadata (package_response (\<lambda>x. x) [1, 2, 3, 4, 5, 6, 7, 8, 9, 10 :: int] pg)) = 10"
    by auto
  from pg have "pg = Paginated 2 3" by (simp add: Pagination_init_def)
  then have "results (package_response (\<lambda>x. x) [1, 2, 3, 4, 5, 6, 7, 8, 9, 10 :: int] pg) = [7, 8, 9]"
    by (simp add: package_response_def)
  with pg tot show ?thesis by blast
qed

text \<open>
  Claim C9. When pagination is not requested (the default Pagination), the packaged
  response holds every row of the query result, in order, its metadata reports the number
  of rows, and the page and per\_page fields of the metadata are None.
\<close>

theorem package_response_without_pagination:
  "Pagination_init None = Inr Unpaginated \<and>
   results (package_response model query Unpaginated) = map model query \<and>
   length (results (package_response model query Unpaginated)) = length query \<and>
   total (metadata (package_response model query Unpaginated)) = int (length query) \<and>
   page (metadata (package_response model query Unpaginated)) = None \<and>
   per_page (metadata (package_response model query Unpaginated)) = None"
  by (simp add: Pagination_init_def package_response_def)

section \<open>Properties of the service\<close>

subsection \<open>What each method computes on a flushed session\<close>

lemma get_eq:
  "get k s =
     (Inr (case table s k of None \<Rightarrow> None | Some c \<Rightarrow> Some \<lparr>id' = k, cols = c\<rparr>),
      s\<lparr>calls := calls s @ [Select k]\<rparr>)"
  by (simp add: get_def execute_select_def split: option.split)

lemma delete_absent:
  assumes "table s k = None"
  shows "delete k s =
           (Inl (NoResultFound ''SmartTemplate not found''), s\<lparr>calls := calls s @ [Select k]\<rparr>)"
  using assms by (simp add: delete_def get_eq)

lemma delete_present:
  assumes "flushed s" and "table s k = Some c"
  shows "delete k s =
           (Inr (), s\<lparr>table := (table s)(k := None),
                      calls := calls s @ [Select k, Delete k, Flush]\<rparr>)"
  using assms
  by (simp add: delete_def get_eq flushed_def session_delete_def session_flush_def)

text \<open>
  An update with nothing to set (a request that supplies no field, on a table without
  \<open>onupdate\<close> values) raises ProgrammingError for every id and changes nothing.
\<close>

lemma update_nothing_to_set:
  assumes "set_clause s (dict_exclude_unset d) = []"
  shows "update k d s = (Inl ProgrammingError, s\<lparr>calls := calls s @ [Update k]\<rparr>)"
  using assms by (simp add: update_def execute_update_def Let_def)

lemma update_absent:
  assumes "flushed s" and "table s k = None" and "set_clause s (dict_exclude_unset d) \<noteq> []"
  shows "update k d s =
           (Inl (NoResultFound ''No row was found when one was required''),
            s\<lparr>calls := calls s @ [Update k, Flush]\<rparr>)"
  using assms
  by (simp add: update_def execute_update_def flushed_def session_flush_def Let_def)

lemma update_present:
  assumes "flushed s" and "table s k = Some c" and "set_clause s (dict_exclude_unset d) \<noteq> []"
  shows "update k d s =
           (Inr \<lparr>id' = k, cols = c ++ map_of (set_clause s (dict_exclude_unset d))\<rparr>,
            s\<lparr>table := (table s)(k \<mapsto> c ++ map_of (set_clause s (dict_exclude_unset d))),
              calls := calls s @ [Update k, Flush]\<rparr>)"
  using assms
  by (simp add: update_def execute_update_def flushed_def session_flush_def Let_def)

lemma set_clause_nonempty: "payload \<noteq> [] \<Longrightarrow> set_clause s payload \<noteq> []"
  by (simp add: set_clause_def)



lemma create_eq:
  assumes "flushed s"
  shows "create d s =
          (Inr \<lparr>id' = next_id s, cols = col_defaults s ++ map_of (dict_exclude_unset d)\<rparr>,
           s\<lparr>table := (table s)(next_id s \<mapsto> col_defaults s ++ map_of (dict_exclude_unset d)),
             next_id := next_id s + 1,
             calls := calls s @ [Add, Flush, Refresh (next_id s)]\<rparr>)"
  using assms
  by (simp add: create_def flushed_def session_add_def session_flush_def
      session_refresh_def Let_def)

subsection \<open>Invariants of the session\<close>

lemma flushed_init: "flushed (init_session dflt onupd)"
  by (simp add: flushed_def init_session_def)

lemma flushed_create: "flushed s \<Longrightarrow> flushed (snd (create d s))"
  by (simp add: create_eq) (simp add: flushed_def)

lemma flushed_get: "flushed s \<Longrightarrow> flushed (snd (get k s))"
  by (simp add: get_eq) (simp add: flushed_def)

lemma flushed_delete: "flushed s \<Longrightarrow> flushed (snd (delete k s))"
  by (cases "table s k") (simp_all add: delete_absent delete_present, simp_all add: flushed_def)

lemma flushed_update:
  assumes "flushed s"
  shows "flushed (snd (update k d s))"
proof (cases "set_clause s (dict_exclude_unset d) = []")
  case True
  then show ?thesis using assms by (simp add: update_nothing_to_set flushed_def)
next
  case False
  then show ?thesis using assms
    by (cases "table s k") (simp_all add: update_absent update_present, simp_all add: flushed_def)
qed

lemma fresh_seq_init: "fresh_seq (init_session dflt onupd)"
  by (simp add: fresh_seq_def init_session_def)

lemma fresh_seq_create:
  assumes "flushed s" and "fresh_seq s"
  shows "fresh_seq (snd (create d s))"
proof -
  have "\<forall>k \<in> dom (table s). k < next_id s + 1"
  proof
    fix k assume "k \<in> dom (table s)"
    then have "k < next_id s" using assms(2) unfolding fresh_seq_def by blast
    then show "k < next_id s + 1" by simp
  qed
  then show ?thesis using assms(1) by (simp add: create_eq fresh_seq_def)
qed

lemma fresh_seq_delete: "flushed s \<Longrightarrow> fresh_seq s \<Longrightarrow> fresh_seq (snd (delete k s))"
  by (cases "table s k")
     (simp_all add: delete_absent delete_present, auto simp: fresh_seq_def)

lemma fresh_seq_update:
  assumes "flushed s" and "fresh_seq s"
  shows "fresh_seq (snd (update k d s))"
proof (cases "set_clause s (dict_exclude_unset d) = []")
  case True
  then show ?thesis using assms(2) by (simp add: update_nothing_to_set fresh_seq_def)
next
  case False
  then show ?thesis using assms
    by (cases "table s k")
       (simp_all add: update_absent update_present, auto simp: fresh_seq_def)
qed

text \<open>With a fresh sequence, a create leaves every row that exists as it is.\<close>

lemma create_keeps_rows:
  assumes "flushed s" and "fresh_seq s" and "table s k = Some c"
  shows "table (snd (create d s)) k = Some c"
proof -
  have "k < next_id s" using assms(2,3) by (auto simp: fresh_seq_def)
  then show ?thesis using assms(1,3) by (simp add: create_eq)
qed

lemma example_session_eq:
  "example_session =
     \<lparr>table = [1 \<mapsto> Map.empty ++ [''name'' \<mapsto> ''alpha'']],
      next_id = 2, col_defaults = Map.empty, col_onupdate = [], new = [], deleted = [],
      calls = [Add, Flush, Refresh 1]\<rparr>"
  by (simp add: example_session_def create_eq [OF flushed_init] dict_exclude_unset_def)
     (simp add: init_session_def)

lemma example_session_flushed: "flushed example_session"
  by (simp add: example_session_eq flushed_def)

lemma example_session_row1: "table example_session 1 \<noteq> None"
  by (simp add: example_session_eq)

lemma example_session_row2: "table example_session 2 = None"
  by (simp add: example_session_eq)

lemma example_session_onupdate: "col_onupdate example_session = []"
  by (simp add: example_session_eq)

lemma example_update_payload: "dict_exclude_unset example_update = [(''description'', ''first'')]"
  by (simp add: example_update_def dict_exclude_unset_def)

lemma update_empty_request_example:
  "fst (update 1 example_empty_update example_session) = Inl ProgrammingError \<and>
   fst (update 2 example_empty_update example_session) = Inl ProgrammingError"
  by (simp add: update_nothing_to_set set_clause_def dict_exclude_unset_def
      example_session_onupdate example_empty_update_def)

subsection \<open>The claims\<close>

text \<open>
  Claim C2, as amended. On a flushed session and for every id: when no row has that id,
  get returns None and raises nothing, delete raises NoResultFound, update raises
  NoResultFound for every request that supplies at least one field, and the table is as
  before; when a row has that id, get returns it, update, for every request that
  supplies at least one field, returns the row as it is stored after the update (a get
  after it returns the same), and delete removes the row.
\<close>

theorem service_keyed_operations:
  assumes "flushed s"
  shows "(table s k = None \<longrightarrow>
            fst (get k s) = Inr None \<and>
            raises_not_found (fst (delete k s)) \<and>
            table (snd (delete k s)) = table s \<and>
            (dict_exclude_unset d \<noteq> [] \<longrightarrow>
               raises_not_found (fst (update k d s)) \<and>
               table (snd (update k d s)) = table s)) \<and>
         (\<forall>c. table s k = Some c \<longrightarrow>
            fst (get k s) = Inr (Some \<lparr>id' = k, cols = c\<rparr>) \<and>
            fst (delete k s) = Inr () \<and>
            table (snd (delete k s)) k = None \<and>
            (dict_exclude_unset d \<noteq> [] \<longrightarrow>
               (\<exists>r. fst (update k d s) = Inr r \<and> id' r = k \<and>
                    table (snd (update k d s)) k = Some (cols r) \<and>
                    fst (get k (snd (update k d s))) = Inr (Some r))))"
proof (intro conjI impI allI)
  assume absent: "table s k = None"
  show "fst (get k s) = Inr None" using absent by (simp add: get_eq)
  show "raises_not_found (fst (delete k s))"
    using absent by (simp add: delete_absent)
  show "table (snd (delete k s)) = table s"
    using absent by (simp add: delete_absent)
  assume "dict_exclude_unset d \<noteq> []"
  then have ne: "set_clause s (dict_exclude_unset d) \<noteq> []" by (rule set_clause_nonempty)
  show "raises_not_found (fst (update k d s))"
    using assms absent ne by (simp add: update_absent)
  show "table (snd (update k d s)) = table s"
    using assms absent ne by (simp add: update_absent)
next
  fix c assume present: "table s k = Some c"
  show "fst (get k s) = Inr (Some \<lparr>id' = k, cols = c\<rparr>)"
    using present by (simp add: get_eq)
  show "fst (delete k s) = Inr ()"
    using assms present by (simp add: delete_present)
  show "table (snd (delete k s)) k = None"
    using assms present by (simp add: delete_present)
  assume "dict_exclude_unset d \<noteq> []"
  then have ne: "set_clause s (dict_exclude_unset d) \<noteq> []" by (rule set_clause_nonempty)
  show "\<exists>r. fst (update k d s) = Inr r \<and> id' r = k \<and>
             table (snd (update k d s)) k = Some (cols r) \<and>
             fst (get k (snd (update k d s))) = Inr (Some r)"
    using assms present ne by (simp add: update_present get_eq)
qed

theorem service_keyed_operations_witness:
  "flushed example_session \<and> table example_session 2 = None \<and>
   table example_session 1 \<noteq> None \<and> dict_exclude_unset example_update \<noteq> [] \<and>
   fst (get 2 example_session) = Inr None \<and>
   raises_not_found (fst (update 2 example_update example_session)) \<and>
   raises_not_found (fst (delete 2 example_session)) \<and>
   fst (delete 1 example_session) = Inr () \<and>
   table (snd (delete 1 example_session)) 1 = None \<and>
   (\<exists>r. fst (update 1 example_update example_session) = Inr r \<and> id' r = 1)"
proof -
  note f = example_session_flushed
  note absent = example_session_row2
  have ne: "dict_exclude_unset example_update \<noteq> []" by (simp add: example_update_payload)
  obtain c where present: "table example_session 1 = Some c"
    using example_session_row1 by blast
  from service_keyed_operations [OF f, of 2 example_update] absent ne
  have a: "fst (get 2 example_session) = Inr None \<and>
           raises_not_found (fst (update 2 example_update example_session)) \<and>
           raises_not_found (fst (delete 2 example_session))"
    by blast
  from service_keyed_operations [OF f, of 1 example_update] present ne
  have p: "fst (delete 1 example_session) = Inr () \<and>
           table (snd (delete 1 example_session)) 1 = None \<and>
           (\<exists>r. fst (update 1 example_update example_session) = Inr r \<and> id' r = 1)"
    by blast
  from f absent example_session_row1 ne a p show ?thesis by blast
qed

text \<open>
  The claim C2 as it is written fails for get: on an empty table, get with id 1 returns
  None; it does not raise NoResultFound.
\<close>

theorem get_absent_returns_none:
  "table (init_session Map.empty [] :: string session) 1 = None \<and>
   fst (get 1 (init_session Map.empty [] :: string session)) = Inr None \<and>
   \<not> raises_not_found (fst (get 1 (init_session Map.empty [] :: string session)))"
  by (simp add: get_eq init_session_def)

text \<open>
  Claim C4. On a flushed session, create succeeds, and a get with the id of the row it
  returned returns that same row; and for every id that exists, delete succeeds and a get
  with that id afterwards returns None.
\<close>

theorem create_get_delete_get:
  assumes "flushed s"
  shows "(\<exists>r s1. create d s = (Inr r, s1) \<and> fst (get (id' r) s1) = Inr (Some r)) \<and>
         (\<forall>c. table s k = Some c \<longrightarrow>
            (\<exists>s1. delete k s = (Inr (), s1) \<and> fst (get k s1) = Inr None))"
  using assms by (simp add: create_eq delete_present get_eq)

theorem create_get_delete_get_witness:
  "flushed example_session \<and> table example_session 1 \<noteq> None \<and>
   (\<exists>r s1. create example_update example_session = (Inr r, s1) \<and>
      fst (get (id' r) s1) = Inr (Some r)) \<and>
   (\<exists>s1. delete 1 example_session = (Inr (), s1) \<and> fst (get 1 s1) = Inr None)"
proof -
  note f = example_session_flushed
  obtain c where present: "table example_session 1 = Some c"
    using example_session_row1 by blast
  from create_get_delete_get [OF f, of example_update 1] present
  have "(\<exists>r s1. create example_update example_session = (Inr r, s1) \<and>
           fst (get (id' r) s1) = Inr (Some r)) \<and>
        (\<exists>s1. delete 1 example_session = (Inr (), s1) \<and> fst (get 1 s1) = Inr None)"
    by blast
  with f example_session_row1 show ?thesis by blast
qed



text \<open>
  Claim C10. On a session with nothing pending and for every id with no matching row,
  delete raises its NoResultFound after the one SELECT of its lookup: the session after it
  is the session before it with that call recorded, so nothing was marked for deletion,
  no flush was issued, and the table and the sequence are unchanged.
\<close>

theorem delete_not_found_atomic:
  assumes "flushed s" and "table s k = None"
  shows "delete k s =
           (Inl (NoResultFound ''SmartTemplate not found''), s\<lparr>calls := calls s @ [Select k]\<rparr>) \<and>
         table (snd (delete k s)) = table s \<and>
         next_id (snd (delete k s)) = next_id s \<and>
         new (snd (delete k s)) = new s \<and>
         deleted (snd (delete k s)) = deleted s \<and>
         calls (snd (delete k s)) = calls s @ [Select k]"
  using assms(2) by (simp add: delete_absent)

theorem delete_not_found_atomic_witness:
  "flushed example_session \<and> table example_session 2 = None \<and>
   fst (delete 2 example_session) = Inl (NoResultFound ''SmartTemplate not found'') \<and>
   table (snd (delete 2 example_session)) = table example_session \<and>
   calls (snd (delete 2 example_session)) = [Add, Flush, Refresh 1, Select 2]"
proof -
  note absent = example_session_row2
  from delete_not_found_atomic [OF example_session_flushed absent]
  have "fst (delete 2 example_session) = Inl (NoResultFound ''SmartTemplate not found'') \<and>
        table (snd (delete 2 example_session)) = table example_session \<and>
        calls (snd (delete 2 example_session)) = calls example_session @ [Select 2]"
    by simp
  moreover have "calls example_session = [Add, Flush, Refresh 1]"
    by (simp add: example_session_eq)
  ultimately show ?thesis using absent example_session_flushed by simp
qed

section \<open>Properties of file validation\<close>

text \<open>
  Claim C8. Each file-validation function returns true only for input that its parser
  accepts: for every input on which the parser raises it returns false, and for every
  input that the parser parses it returns true.
\<close>

theorem file_validation_follows_parser:
  "(\<forall>e. ast_parse source_code = Inl e \<longrightarrow> \<not> is_valid_python_file ast_parse source_code) \<and>
   (\<forall>tree. ast_parse source_code = Inr tree \<longrightarrow> is_valid_python_file ast_parse source_code) \<and>
   (\<forall>e. yaml_safe_load yaml_file = Inl e \<longrightarrow> \<not> is_valid_yaml_file yaml_safe_load yaml_file) \<and>
   (\<forall>doc. yaml_safe_load yaml_file = Inr doc \<longrightarrow> is_valid_yaml_file yaml_safe_load yaml_file) \<and>
   (\<forall>e. environment_parse template = Inl e \<longrightarrow>
        \<not> is_valid_jinja2_template environment_parse template) \<and>
   (\<forall>t. environment_parse template = Inr t \<longrightarrow>
        is_valid_jinja2_template environment_parse template)"
  by (simp add: is_valid_python_file_def is_valid_yaml_file_def is_valid_jinja2_template_def)

theorem file_validation_follows_parser_witness:
  "\<not> is_valid_python_file (\<lambda>x. if x = ''pass'' then Inr () else Inl (ValueError ''invalid syntax'')) ''for'' \<and>
   is_valid_python_file (\<lambda>x. if x = ''pass'' then Inr () else Inl (ValueError ''invalid syntax'')) ''pass'' \<and>
   \<not> is_valid_yaml_file (\<lambda>x. if x = ''[]'' then Inr () else Inl (ValueError ''invalid syntax'')) '']['' \<and>
   is_valid_yaml_file (\<lambda>x. if x = ''[]'' then Inr () else Inl (ValueError ''invalid syntax'')) ''[]'' \<and>
   \<not> is_valid_jinja2_template (\<lambda>x. if x = ''{{ a }}'' then Inr () else Inl (ValueError ''invalid syntax'')) ''{{ a }'' \<and>
   is_valid_jinja2_template (\<lambda>x. if x = ''{{ a }}'' then Inr () else Inl (ValueError ''invalid syntax'')) ''{{ a }}''"
  using file_validation_follows_parser
          [of "\<lambda>x. if x = ''pass'' then Inr () else Inl (ValueError ''invalid syntax'')" "''for''"
              "\<lambda>x. if x = ''[]'' then Inr () else Inl (ValueError ''invalid syntax'')" "''][''"
              "\<lambda>x. if x = ''{{ a }}'' then Inr () else Inl (ValueError ''invalid syntax'')" "''{{ a }''"]
        file_validation_follows_parser
          [of "\<lambda>x. if x = ''pass'' then Inr () else Inl (ValueError ''invalid syntax'')" "''pass''"
              "\<lambda>x. if x = ''[]'' then Inr () else Inl (ValueError ''invalid syntax'')" "''[]''"
              "\<lambda>x. if x = ''{{ a }}'' then Inr () else Inl (ValueError ''invalid syntax'')" "''{{ a }}''"]
  by simp

section \<open>Properties of the client\<close>

text \<open>
  Claim C7 fails on the code. The value sent as sort\_ascending is the identity test of
  the class SortOrder against its member ASCENDING, which is false whatever the flag is:
  with the flag ASCENDING, as with DESCENDING, the request carries sort\_ascending = false.
\<close>

theorem list_all_sort_ascending_is_false:
  "list_all show_all user_only search ASCENDING sort_field ''sort_ascending'' = Some (Bool False) \<and>
   list_all show_all user_only search DESCENDING sort_field ''sort_ascending'' = Some (Bool False) \<and>
   list_all show_all user_only search UNSORTED sort_field ''sort_ascending'' = None"
  by (simp add: list_all_def py_is_def Let_def split: option.split)

text \<open>
  Claim C6. When the API accepts the creation request (status 201, a record with an id)
  and the upload that follows reports failure, the command is not aborted: it returns
  normally, it prints the warning and then renders the created record as the API
  returned it, and the server is left in the state the upload attempt left it in. The
  command sends no further request, so nothing deletes or rolls back the record.
\<close>

theorem create_upload_failure_is_warning:
  assumes "client \<lparr>url_path = ''/jobbergate/applications'', http_method = POST,
                   json_body = create_req_data cfg name identifier application_desc\<rparr> srv =
             (\<lparr>status_code = 201, response_json = result\<rparr>, srv1)"
    and "result ''id'' = Some application_id"
    and "upload_application application_path application_id srv1 = (False, srv2)"
  shows "create_application client cfg upload_application
           name identifier application_path application_desc srv =
         (Inr (), srv2,
          [Terminal_message ''File upload failed'' ''yellow'',
           Render_single_result result HIDDEN_FIELDS ''Created Application''])"
  using assms by (simp add: create_application_def make_request_def)

theorem create_upload_failure_is_warning_witness:
  "create_application
     (\<lambda>req srv. (\<lparr>status_code = 201, response_json = [''id'' \<mapsto> JInt 7]\<rparr>,
                 srv @ [(http_method req, url_path req)]))
     Map.empty
     (\<lambda>path application_id srv. (False, srv @ [(POST, ''/jobbergate/applications/7/upload'')]))
     ''app'' None ''/tmp/app'' None [] =
   (Inr (),
    [(POST, ''/jobbergate/applications''), (POST, ''/jobbergate/applications/7/upload'')],
    [Terminal_message ''File upload failed'' ''yellow'',
     Render_single_result [''id'' \<mapsto> JInt 7] HIDDEN_FIELDS ''Created Application''])"
  using create_upload_failure_is_warning
          [of "\<lambda>req srv. (\<lparr>status_code = 201, response_json = [''id'' \<mapsto> JInt 7]\<rparr>,
                          srv @ [(http_method req, url_path req)])"
              Map.empty "''app''" None None "[]" "[''id'' \<mapsto> JInt 7]"
              "[(POST, ''/jobbergate/applications'')]" "JInt 7"
              "\<lambda>path application_id srv. (False, srv @ [(POST, ''/jobbergate/applications/7/upload'')])"
              "''/tmp/app''"
              "[(POST, ''/jobbergate/applications''), (POST, ''/jobbergate/applications/7/upload'')]"]
  by simp

end
